theory Spec2Isabelle
  imports Main "HOL-Library.Word"
begin

section \<open>The fault filter's data model (fault\_filter.h)\<close>

text \<open>
  The repository file is the header \<^verbatim>\<open>source/extensions/filters/http/fault/fault_filter.h\<close>.
  It holds the statistics table, the configuration classes with their inline getters,
  the member layout of \<^verbatim>\<open>StreamRateLimiter\<close> and \<^verbatim>\<open>FaultFilter\<close>, and the inline
  bodies of the response-path hooks. Every other member function (\<^verbatim>\<open>decodeHeaders\<close>,
  \<^verbatim>\<open>onDestroy\<close>, \<^verbatim>\<open>faultOverflow\<close>, \<^verbatim>\<open>incActiveFaults\<close>, \<^verbatim>\<open>writeData\<close>,
  \<^verbatim>\<open>onTokenTimer\<close> and the rest) is declared only, so nothing is defined for it. Member names lose the trailing underscore of the
  C++ (\<^verbatim>\<open>fault_active_\<close> is \<open>fault_active\<close>), since a name ending in an underscore is
  reserved in Isabelle. A \<^verbatim>\<open>uint64_t\<close> is a \<open>64 word\<close>.
\<close>

type_synonym uint64 = "64 word"

subsection \<open>The statistics table\<close>

text \<open>
  \<^verbatim>\<open>ALL_FAULT_FILTER_STATS(COUNTER, GAUGE)\<close> is an X-macro: it applies its first argument
  to the name of every counter and its second to the name of the gauge, in the order
  written. The two arguments are parameters here, as they are in the macro.
\<close>

definition ALL_FAULT_FILTER_STATS :: "(string \<Rightarrow> 'a) \<Rightarrow> (string \<Rightarrow> 'a) \<Rightarrow> 'a list" where
  "ALL_FAULT_FILTER_STATS COUNTER GAUGE =
     [COUNTER ''delays_injected'',
      COUNTER ''aborts_injected'',
      COUNTER ''response_rl_injected'',
      COUNTER ''faults_overflow'',
      GAUGE ''active_faults'']"

text \<open>
  \<^verbatim>\<open>struct FaultFilterStats { ALL_FAULT_FILTER_STATS(GENERATE_COUNTER_STRUCT,
  GENERATE_GAUGE_STRUCT) };\<close> declares one member per entry of the table, a counter or a
  gauge, carrying the entry's name.
\<close>

datatype stat_member = GENERATE_COUNTER_STRUCT string | GENERATE_GAUGE_STRUCT string

definition FaultFilterStats_members :: "stat_member list" where
  "FaultFilterStats_members =
     ALL_FAULT_FILTER_STATS GENERATE_COUNTER_STRUCT GENERATE_GAUGE_STRUCT"

fun counter_names :: "stat_member list \<Rightarrow> string list" where
  "counter_names [] = []"
| "counter_names (GENERATE_COUNTER_STRUCT n # ms) = n # counter_names ms"
| "counter_names (GENERATE_GAUGE_STRUCT n # ms) = counter_names ms"

fun gauge_names :: "stat_member list \<Rightarrow> string list" where
  "gauge_names [] = []"
| "gauge_names (GENERATE_COUNTER_STRUCT n # ms) = gauge_names ms"
| "gauge_names (GENERATE_GAUGE_STRUCT n # ms) = n # gauge_names ms"

subsection \<open>Configuration: FaultSettings\<close>

text \<open>
  \<^verbatim>\<open>envoy::type::FractionalPercent\<close> is a generated protobuf type that the header only
  names; it is kept as the numerator and denominator the spec describes.
\<close>

record FractionalPercent =
  numerator :: nat
  denominator :: nat

record RateLimit =
  fixed_rate_kbps :: uint64
  percentage :: FractionalPercent

text \<open>
  \<^verbatim>\<open>Http::HeaderUtility::HeaderData\<close> is declared outside the header; only lists of it are
  stored and returned here, so it stays an abstract type.
\<close>

typedecl HeaderData

record FaultSettings =
  abort_percentage :: FractionalPercent
  http_status :: uint64
  fixed_delay_percentage :: FractionalPercent
  fixed_duration_ms :: uint64
  upstream_cluster :: string
  fault_filter_headers :: "HeaderData list"
  downstream_nodes :: "string set"
  max_active_faults :: "uint64 option"
  response_rate_limit :: "RateLimit option"

definition filterHeaders :: "FaultSettings \<Rightarrow> HeaderData list" where
  "filterHeaders s = fault_filter_headers s"

definition abortPercentage :: "FaultSettings \<Rightarrow> FractionalPercent" where
  "abortPercentage s = abort_percentage s"

definition delayPercentage :: "FaultSettings \<Rightarrow> FractionalPercent" where
  "delayPercentage s = fixed_delay_percentage s"

definition delayDuration :: "FaultSettings \<Rightarrow> uint64" where
  "delayDuration s = fixed_duration_ms s"

definition abortCode :: "FaultSettings \<Rightarrow> uint64" where
  "abortCode s = http_status s"

definition upstreamCluster :: "FaultSettings \<Rightarrow> string" where
  "upstreamCluster s = upstream_cluster s"

definition downstreamNodes :: "FaultSettings \<Rightarrow> string set" where
  "downstreamNodes s = downstream_nodes s"

definition maxActiveFaults :: "FaultSettings \<Rightarrow> uint64 option" where
  "maxActiveFaults s = max_active_faults s"

definition responseRateLimit :: "FaultSettings \<Rightarrow> RateLimit option" where
  "responseRateLimit s = response_rate_limit s"

subsection \<open>The filter object and its response-path hooks\<close>

text \<open>
  The members of \<^verbatim>\<open>class FaultFilter\<close> that belong to one request; \<^verbatim>\<open>config_\<close> points
  to the configuration shared by all filter objects and is not part of this state. The
  two callback pointers are \<open>None\<close> for the null pointer they start as and \<open>Some h\<close>
  for a registered handle; the delay timer is \<open>None\<close> when there is no timer object and
  \<open>Some ms\<close> for a timer armed with a duration. The owned response limiter
  (\<^verbatim>\<open>std::unique_ptr<StreamRateLimiter>\<close>) is recorded as present or absent.
\<close>

record FaultFilter =
  decoder_callbacks :: "nat option"
  encoder_callbacks :: "nat option"
  delay_timer :: "uint64 option"
  downstream_cluster :: string
  fault_settings :: FaultSettings
  fault_active :: bool
  response_limiter :: bool
  downstream_cluster_delay_percent_key :: string
  downstream_cluster_abort_percent_key :: string
  downstream_cluster_delay_duration_key :: string
  downstream_cluster_abort_http_status_key :: string

text \<open>
  The status enumerations of \<^verbatim>\<open>envoy/http/filter.h\<close>, which the header includes. Each
  C++ enumerator \<^verbatim>\<open>FilterHeadersStatus::Continue\<close> is written with its scope as a prefix,
  since the enumerations share the enumerator name.
\<close>

datatype FilterHeadersStatus =
  FilterHeadersStatus_Continue | FilterHeadersStatus_StopIteration

datatype FilterTrailersStatus =
  FilterTrailersStatus_Continue | FilterTrailersStatus_StopIteration

datatype FilterMetadataStatus = FilterMetadataStatus_Continue

text \<open>
  A header map and a metadata map are passed by non-const reference, so a hook could
  change them as well as the filter itself. Each hook therefore returns its status
  together with the map and the filter object as it leaves them.
\<close>

type_synonym HeaderMap = "(string \<times> string) list"
type_synonym MetadataMap = "(string \<times> string) list"

definition setDecoderFilterCallbacks :: "FaultFilter \<Rightarrow> nat \<Rightarrow> FaultFilter" where
  "setDecoderFilterCallbacks this callbacks = this\<lparr>decoder_callbacks := Some callbacks\<rparr>"

definition setEncoderFilterCallbacks :: "FaultFilter \<Rightarrow> nat \<Rightarrow> FaultFilter" where
  "setEncoderFilterCallbacks this callbacks = this\<lparr>encoder_callbacks := Some callbacks\<rparr>"

definition encode100ContinueHeaders ::
  "FaultFilter \<Rightarrow> HeaderMap \<Rightarrow> FilterHeadersStatus \<times> HeaderMap \<times> FaultFilter" where
  "encode100ContinueHeaders this headers = (FilterHeadersStatus_Continue, headers, this)"

definition encodeHeaders ::
  "FaultFilter \<Rightarrow> HeaderMap \<Rightarrow> bool \<Rightarrow> FilterHeadersStatus \<times> HeaderMap \<times> FaultFilter" where
  "encodeHeaders this headers end_stream = (FilterHeadersStatus_Continue, headers, this)"

definition encodeTrailers ::
  "FaultFilter \<Rightarrow> HeaderMap \<Rightarrow> FilterTrailersStatus \<times> HeaderMap \<times> FaultFilter" where
  "encodeTrailers this trailers = (FilterTrailersStatus_Continue, trailers, this)"

definition encodeMetadata ::
  "FaultFilter \<Rightarrow> MetadataMap \<Rightarrow> FilterMetadataStatus \<times> MetadataMap \<times> FaultFilter" where
  "encodeMetadata this metadata = (FilterMetadataStatus_Continue, metadata, this)"

section \<open>Properties\<close>

subsection \<open>The names the statistics sink sees\<close>

text \<open>
  C7, as the spec states it: the counters are named \<^verbatim>\<open>delays_injected\<close>,
  \<^verbatim>\<open>aborts_injected\<close>, \<^verbatim>\<open>response_rate_limited\<close> and \<^verbatim>\<open>faults_overflow\<close>. The table of
  the header has no counter of the third name, so the set of counter names is not the one
  the spec lists.
\<close>

theorem stats_names_counterexample:
  "''response_rate_limited'' \<notin> set (counter_names FaultFilterStats_members) \<and>
   set (counter_names FaultFilterStats_members) \<noteq>
     {''delays_injected'', ''aborts_injected'', ''response_rate_limited'', ''faults_overflow''}"
proof -
  have names: "counter_names FaultFilterStats_members =
     [''delays_injected'', ''aborts_injected'', ''response_rl_injected'', ''faults_overflow'']"
    by (simp add: FaultFilterStats_members_def ALL_FAULT_FILTER_STATS_def)
  have absent: "''response_rate_limited'' \<notin> set (counter_names FaultFilterStats_members)"
    unfolding names by simp
  have listed: "''response_rate_limited'' \<in>
     {''delays_injected'', ''aborts_injected'', ''response_rate_limited'', ''faults_overflow''}"
    by simp
  from absent listed show ?thesis by metis
qed

text \<open>
  C7, amended: the fault filter's statistics are exactly four counters, named
  \<^verbatim>\<open>delays_injected\<close>, \<^verbatim>\<open>aborts_injected\<close>, \<^verbatim>\<open>response_rl_injected\<close> and
  \<^verbatim>\<open>faults_overflow\<close>, and one gauge, named \<^verbatim>\<open>active_faults\<close>.
\<close>

theorem stats_names:
  "counter_names FaultFilterStats_members =
     [''delays_injected'', ''aborts_injected'', ''response_rl_injected'', ''faults_overflow''] \<and>
   gauge_names FaultFilterStats_members = [''active_faults''] \<and>
   length FaultFilterStats_members = 5"
  by (simp add: FaultFilterStats_members_def ALL_FAULT_FILTER_STATS_def)

subsection \<open>The response-path hooks other than encodeData\<close>

text \<open>
  C10: \<^verbatim>\<open>encode100ContinueHeaders\<close>, \<^verbatim>\<open>encodeHeaders\<close>, \<^verbatim>\<open>encodeTrailers\<close> and
  \<^verbatim>\<open>encodeMetadata\<close> return Continue whatever the state of the filter, the map passed and
  (for \<^verbatim>\<open>encodeHeaders\<close>) the end-of-stream flag, and they leave both the map and the
  filter object as they were.
\<close>

theorem encode_hooks_continue:
  "encode100ContinueHeaders this headers = (FilterHeadersStatus_Continue, headers, this) \<and>
   encodeHeaders this headers end_stream = (FilterHeadersStatus_Continue, headers, this) \<and>
   encodeTrailers this trailers = (FilterTrailersStatus_Continue, trailers, this) \<and>
   encodeMetadata this metadata = (FilterMetadataStatus_Continue, metadata, this)"
  by (simp add: encode100ContinueHeaders_def encodeHeaders_def encodeTrailers_def
      encodeMetadata_def)

end
